theory Spec2Isabelle
  imports Complex_Main
begin

section \<open>The goto composable: programmatic smooth scrolling\<close>

text \<open>
  A shallow embedding of \<^verbatim>\<open>packages/vuetify/src/composables/goto.ts\<close>.

  Conventions of the embedding.
  \<^item> A JavaScript \<^verbatim>\<open>number\<close> is a \<^typ>\<open>real\<close> standing for a finite double: the model
    has no NaN, no infinity and no negative zero. The operators \<^verbatim>\<open>+\<close>, \<^verbatim>\<open>-\<close>, \<^verbatim>\<open>*\<close>,
    \<^verbatim>\<open>/\<close> and \<^verbatim>\<open>**\<close> on arbitrary numbers round their result to the nearest double
    (\<open>dadd\<close>, \<open>dsub\<close>, \<open>dmul\<close>, \<open>ddiv\<close>, \<open>dpow\<close>). Sums and differences of layout
    geometry, which the DOM keeps in whole numbers, are exact and written with the plain
    operators. \<^verbatim>\<open>Math.floor\<close> is \<open>of_int \<circ> floor\<close>; \<^verbatim>\<open>Math.min\<close>, \<^verbatim>\<open>Math.max\<close> and
    \<^verbatim>\<open>Math.abs\<close> are exact.
  \<^item> \<open>querySelector doc s\<close> is what \<^verbatim>\<open>document.querySelector(s)\<close> returns for a valid
    selector \<open>s\<close>. On a string that is not a valid selector the DOM throws a
    \<^verbatim>\<open>SyntaxError\<close>, which the model does not represent: \<open>valid_selector doc\<close> says
    which strings are valid, and a statement about what a call throws assumes it of the
    strings that call looks up.
  \<^item> An element is an immutable value carrying its identity, its layout geometry and its
    chain of offset parents. The only properties the module ever writes, \<^verbatim>\<open>scrollLeft\<close>
    and \<^verbatim>\<open>scrollTop\<close>, live in a store keyed by the element's identity, so that a
    write through one reference is seen through every other.
  \<^item> A property write is a plain store update: reading a scroll offset back yields the
    value written.
  \<^item> Everything the module does besides returning is a field of \<open>world\<close>: the scroll
    store, the lines printed on the console, and the number of calls of
    \<^verbatim>\<open>requestAnimationFrame\<close>.
  \<^item> A \<^verbatim>\<open>Ref<boolean>\<close> is a function of the reactive state \<open>'s\<close>; reading
    \<^verbatim>\<open>.value\<close> applies it to the state at the time of the read.
  \<^item> A \<^verbatim>\<open>throw\<close> is the \<open>Inl\<close> branch of the result, paired with the world as it is
    when the error is thrown. \<^verbatim>\<open>scrollTo\<close> is an \<^verbatim>\<open>async\<close> function, so its caller
    meets the error as the rejection of the promise returned.
\<close>

subsection \<open>Double arithmetic\<close>

text \<open>
  The number of binary digits of a natural number, and the binary exponent of a real
  other than 0: the \<open>e\<close> with \<open>2 ^ e \<le> |x| < 2 ^ (e + 1)\<close>.
\<close>

fun bits :: "nat \<Rightarrow> nat" where
  "bits n = (if n = 0 then 0 else Suc (bits (n div 2)))"

declare bits.simps [simp del]

definition exponent :: "real \<Rightarrow> int" where
  "exponent x =
     (if 1 \<le> \<bar>x\<bar> then int (bits (nat \<lfloor>\<bar>x\<bar>\<rfloor>)) - 1
      else - int (bits (nat (\<lceil>1 / \<bar>x\<bar>\<rceil> - 1))))"

text \<open>The nearest integer, the even one of two that are equally near.\<close>

definition rne :: "real \<Rightarrow> int" where
  "rne x =
     (let f = \<lfloor>x\<rfloor>
      in if x - of_int f < 1 / 2 then f
         else if 1 / 2 < x - of_int f then f + 1
         else if even f then f else f + 1)"

text \<open>
  The double nearest to a real, ties to even: 53 significant binary digits, the exponent
  not below -1022 (so that small numbers round to subnormal doubles). Only magnitudes
  below \<open>2 ^ 1024\<close> are meant: beyond them a double operation yields an infinity.
\<close>

definition double :: "real \<Rightarrow> real" where
  "double x =
     (if x = 0 then 0
      else (let k = 52 - max (exponent x) (- 1022)
            in if 0 \<le> k then of_int (rne (x * 2 ^ nat k)) / 2 ^ nat k
               else of_int (rne (x / 2 ^ nat (- k))) * 2 ^ nat (- k)))"

text \<open>
  The arithmetic operators. An operand that is not a double is read as the double nearest
  to it, as a numeric literal is. The language standard leaves \<^verbatim>\<open>**\<close> to approximate
  the power; the model takes the correctly rounded one.
\<close>

definition dadd :: "real \<Rightarrow> real \<Rightarrow> real" where
  "dadd x y = double (double x + double y)"

definition dsub :: "real \<Rightarrow> real \<Rightarrow> real" where
  "dsub x y = double (double x - double y)"

definition dmul :: "real \<Rightarrow> real \<Rightarrow> real" where
  "dmul x y = double (double x * double y)"

definition ddiv :: "real \<Rightarrow> real \<Rightarrow> real" where
  "ddiv x y = double (double x / double y)"

definition dpow :: "real \<Rightarrow> nat \<Rightarrow> real" where
  "dpow x n = double (double x ^ n)"

subsection \<open>Elements, the document and the observable world\<close>

record geometry =
  offsetLeft :: real
  offsetTop :: real
  offsetWidth :: real
  offsetHeight :: real
  clientWidth :: real
  clientHeight :: real
  scrollWidth :: real
  scrollHeight :: real

text \<open>
  \<open>ident\<close> is the identity of the object (what \<^verbatim>\<open>===\<close> compares). \<open>layoutTop\<close> is the
  computed style's \<^verbatim>\<open>--v-layout-top\<close>: \<open>None\<close> when the property value is the empty
  string, \<open>Some n\<close> when \<^verbatim>\<open>parseInt(value, 10)\<close> is \<open>n\<close>.
\<close>

datatype element =
  Element (ident: nat) (geom: geometry) (offsetParent: "element option")
    (parentElement: "element option") (layoutTop: "int option")

record scroll =
  scrollLeft :: real
  scrollTop :: real

text \<open>One line of \<^verbatim>\<open>console.log({ min, max, value })\<close>.\<close>

record log_entry =
  log_min :: real
  log_max :: real
  log_value :: real

record world =
  scrolls :: "nat \<Rightarrow> scroll"
  console :: "log_entry list"
  raf_calls :: nat

record document =
  querySelector :: "string \<Rightarrow> element option"
  valid_selector :: "string \<Rightarrow> bool"
  scrollingElement :: "element option"
  body :: element
  documentElement_clientWidth :: real
  documentElement_clientHeight :: real

definition read_scroll :: "world \<Rightarrow> element \<Rightarrow> bool \<Rightarrow> real" where
  "read_scroll w el horizontal =
     (if horizontal then scrollLeft (scrolls w (ident el)) else scrollTop (scrolls w (ident el)))"

definition write_scroll :: "element \<Rightarrow> bool \<Rightarrow> real \<Rightarrow> world \<Rightarrow> world" where
  "write_scroll el horizontal v w =
     w\<lparr>scrolls := (scrolls w)(ident el :=
        (if horizontal then (scrolls w (ident el))\<lparr>scrollLeft := v\<rparr>
         else (scrolls w (ident el))\<lparr>scrollTop := v\<rparr>))\<rparr>"

subsection \<open>Options and targets\<close>

type_synonym curve = "real \<Rightarrow> real"

datatype easing_spec = EasingName string | EasingFn curve

text \<open>
  What a caller may pass where an element is expected: an element, a component handle
  (given by its root element, if mounted), nothing, or a selector string.
\<close>

datatype handle = Elem element | Component "element option" | Undefined

datatype descriptor = Selector string | Handle handle

datatype target = Num real | Desc descriptor

record GoToOptions =
  container :: descriptor
  duration :: real
  layout :: bool
  offset :: real
  easing :: easing_spec
  patterns :: "string \<rightharpoonup> curve"

text \<open>\<^verbatim>\<open>Partial<GoToOptions>\<close>: \<open>None\<close> is an absent key; an absent \<open>patterns\<close> is the empty map.\<close>

record PartialOptions =
  p_container :: "descriptor option"
  p_duration :: "real option"
  p_layout :: "bool option"
  p_offset :: "real option"
  p_easing :: "easing_spec option"
  p_patterns :: "string \<rightharpoonup> curve"

record 's GoToInstance =
  rtl :: "'s \<Rightarrow> bool"
  options :: GoToOptions

text \<open>
  The easing curves of \<^verbatim>\<open>genDefaults\<close>. In the source \<^verbatim>\<open>--t ** n\<close> decrements \<open>t\<close>
  and raises the result to the power: it is \<open>(t - 1) ** n\<close>.
\<close>

definition linear_ease :: curve where
  "linear_ease t = t"

definition easeInQuad :: curve where
  "easeInQuad t = dpow t 2"

definition easeOutQuad :: curve where
  "easeOutQuad t = dmul t (dsub 2 t)"

definition easeInOutQuad :: curve where
  "easeInOutQuad t =
     (if t < 0.5 then dmul 2 (dpow t 2) else dadd (- 1) (dmul (dsub 4 (dmul 2 t)) t))"

definition easeInCubic :: curve where
  "easeInCubic t = dpow t 3"

definition easeOutCubic :: curve where
  "easeOutCubic t = dadd (dpow (dsub t 1) 3) 1"

definition easeInOutCubic :: curve where
  "easeInOutCubic t =
     (if t < 0.5 then dmul 4 (dpow t 3)
      else dadd (dmul (dmul (dsub t 1) (dsub (dmul 2 t) 2)) (dsub (dmul 2 t) 2)) 1)"

definition easeInQuart :: curve where
  "easeInQuart t = dpow t 4"

definition easeOutQuart :: curve where
  "easeOutQuart t = dsub 1 (dpow (dsub t 1) 4)"

definition easeInOutQuart :: curve where
  "easeInOutQuart t =
     (if t < 0.5 then dmul 8 (dpow t 4) else dsub 1 (dmul 8 (dpow (dsub t 1) 4)))"

definition easeInQuint :: curve where
  "easeInQuint t = dpow t 5"

definition easeOutQuint :: curve where
  "easeOutQuint t = dadd 1 (dpow (dsub t 1) 5)"

definition easeInOutQuint :: curve where
  "easeInOutQuint t =
     (if t < 0.5 then dmul 16 (dpow t 5) else dadd 1 (dmul 16 (dpow (dsub t 1) 5)))"

definition genDefaults :: GoToOptions where
  "genDefaults =
     \<lparr>container = Handle Undefined,
      duration = 300,
      layout = False,
      offset = 0,
      easing = EasingName ''easeInOutCubic'',
      patterns = map_of
        [(''linear'', linear_ease),
         (''easeInQuad'', easeInQuad),
         (''easeOutQuad'', easeOutQuad),
         (''easeInOutQuad'', easeInOutQuad),
         (''easeInCubic'', easeInCubic),
         (''easeOutCubic'', easeOutCubic),
         (''easeInOutCubic'', easeInOutCubic),
         (''easeInQuart'', easeInQuart),
         (''easeOutQuart'', easeOutQuart),
         (''easeInOutQuart'', easeInOutQuart),
         (''easeInQuint'', easeInQuint),
         (''easeOutQuint'', easeOutQuint),
         (''easeInOutQuint'', easeInOutQuint)]\<rparr>"

text \<open>
  Modelled from the spec: \<^verbatim>\<open>mergeDeep\<close> of \<^verbatim>\<open>@/util\<close> is not among the sources. The
  spec has the second argument win on every key it carries, and the nested pattern maps
  merged entry by entry with the second argument's entries overriding. The two
  definitions are the same function at the two types it is used at.
\<close>

definition mergeDeep :: "GoToOptions \<Rightarrow> PartialOptions \<Rightarrow> GoToOptions" where
  "mergeDeep source over =
     \<lparr>container = (case p_container over of None \<Rightarrow> container source | Some v \<Rightarrow> v),
      duration = (case p_duration over of None \<Rightarrow> duration source | Some v \<Rightarrow> v),
      layout = (case p_layout over of None \<Rightarrow> layout source | Some v \<Rightarrow> v),
      offset = (case p_offset over of None \<Rightarrow> offset source | Some v \<Rightarrow> v),
      easing = (case p_easing over of None \<Rightarrow> easing source | Some v \<Rightarrow> v),
      patterns = patterns source ++ p_patterns over\<rparr>"

definition mergeDeep_partial :: "PartialOptions \<Rightarrow> PartialOptions \<Rightarrow> PartialOptions" where
  "mergeDeep_partial source over =
     \<lparr>p_container = (case p_container over of None \<Rightarrow> p_container source | Some v \<Rightarrow> Some v),
      p_duration = (case p_duration over of None \<Rightarrow> p_duration source | Some v \<Rightarrow> Some v),
      p_layout = (case p_layout over of None \<Rightarrow> p_layout source | Some v \<Rightarrow> Some v),
      p_offset = (case p_offset over of None \<Rightarrow> p_offset source | Some v \<Rightarrow> Some v),
      p_easing = (case p_easing over of None \<Rightarrow> p_easing source | Some v \<Rightarrow> Some v),
      p_patterns = p_patterns source ++ p_patterns over\<rparr>"

text \<open>The empty options object, also standing for an omitted \<^verbatim>\<open>options\<close> argument.\<close>

definition no_options :: PartialOptions where
  "no_options =
     \<lparr>p_container = None, p_duration = None, p_layout = None, p_offset = None,
      p_easing = None, p_patterns = Map.empty\<rparr>"

subsection \<open>Resolving targets and containers\<close>

text \<open>
  Modelled from the spec: \<^verbatim>\<open>refElement\<close> of \<^verbatim>\<open>@/util\<close> is not among the sources. The
  spec has it return an element given directly, unwrap a component handle to its root
  element, and return nothing when there is no mounted element.
\<close>

definition refElement :: "handle \<Rightarrow> element option" where
  "refElement h = (case h of Elem e \<Rightarrow> Some e | Component mounted \<Rightarrow> mounted | Undefined \<Rightarrow> None)"

definition getTarget :: "document \<Rightarrow> descriptor \<Rightarrow> element option" where
  "getTarget doc el = (case el of Selector s \<Rightarrow> querySelector doc s | Handle h \<Rightarrow> refElement h)"

definition getContainer :: "document \<Rightarrow> descriptor \<Rightarrow> element" where
  "getContainer doc el =
     (case getTarget doc el of
        Some e \<Rightarrow> e
      | None \<Rightarrow> (case scrollingElement doc of Some e \<Rightarrow> e | None \<Rightarrow> body doc))"

subsection \<open>Offsets\<close>

text \<open>The \<^verbatim>\<open>while (el)\<close> loop of \<^verbatim>\<open>getOffset\<close>, with its accumulator.\<close>

function offset_loop :: "bool \<Rightarrow> element option \<Rightarrow> real \<Rightarrow> real" where
  "offset_loop horizontal None totalOffset = totalOffset"
| "offset_loop horizontal (Some el) totalOffset =
     offset_loop horizontal (offsetParent el)
       (totalOffset + (if horizontal then offsetLeft (geom el) else offsetTop (geom el)))"
  by pat_completeness auto
termination
  by (relation "measure (\<lambda>(h, e, t). size_option size e)") (auto, case_tac el, auto)

definition getOffset :: "document \<Rightarrow> target \<Rightarrow> bool \<Rightarrow> bool \<Rightarrow> real" where
  "getOffset doc tgt horizontal isRtl =
     (case tgt of
        Num n \<Rightarrow> (if horizontal \<and> isRtl then - n else n)
      | Desc d \<Rightarrow> offset_loop horizontal (getTarget doc d) 0)"

text \<open>The chain of positioning ancestors: the element, its offset parent, and so on.\<close>

fun offset_chain :: "element \<Rightarrow> element list" where
  "offset_chain (Element i g op pe lt) =
     Element i g op pe lt # (case op of None \<Rightarrow> [] | Some p \<Rightarrow> offset_chain p)"

definition axis_offset :: "bool \<Rightarrow> element \<Rightarrow> real" where
  "axis_offset horizontal el = (if horizontal then offsetLeft (geom el) else offsetTop (geom el))"

subsection \<open>Clamping\<close>

text \<open>
  The bounds \<^verbatim>\<open>min\<close> and \<^verbatim>\<open>max\<close> of \<^verbatim>\<open>clampTarget\<close> (their initial infinities are
  overwritten on every path), and the function itself, which prints the bounds and the
  value before it returns.
\<close>

definition clamp_bounds :: "element \<Rightarrow> bool \<Rightarrow> bool \<Rightarrow> real \<times> real" where
  "clamp_bounds cont isRtl horizontal =
     (let containerWidth = offsetWidth (geom cont);
          containerHeight = offsetHeight (geom cont)
      in if horizontal then
           (if isRtl then (- (scrollWidth (geom cont) - containerWidth), 0)
            else (0, scrollWidth (geom cont) - containerWidth))
         else (0, scrollHeight (geom cont) + - containerHeight))"

definition clampTarget :: "element \<Rightarrow> real \<Rightarrow> bool \<Rightarrow> bool \<Rightarrow> world \<Rightarrow> real \<times> world" where
  "clampTarget cont v isRtl horizontal w =
     (let (mn, mx) = clamp_bounds cont isRtl horizontal
      in (max (min v mx) mn,
          w\<lparr>console := console w @ [\<lparr>log_min = mn, log_max = mx, log_value = v\<rparr>]\<rparr>))"

subsection \<open>The scroll animator\<close>

datatype error = EasingNotFound string | NullContainer | InjectionMissing

text \<open>
  \<open>EasingNotFound m\<close> is the \<^verbatim>\<open>TypeError\<close> of \<^verbatim>\<open>scrollTo\<close> with message \<open>m\<close>;
  \<open>NullContainer\<close> is the \<^verbatim>\<open>TypeError\<close> the runtime raises when \<^verbatim>\<open>clampTarget\<close>
  destructures a container that is \<^verbatim>\<open>null\<close> (a target without parent element under
  \<^verbatim>\<open>container: 'parent'\<close>); \<open>InjectionMissing\<close> is the \<^verbatim>\<open>Error\<close> of \<^verbatim>\<open>useGoTo\<close>.
\<close>

text \<open>The resolved \<^verbatim>\<open>target\<close> of \<^verbatim>\<open>scrollTo\<close>: a number or an element.\<close>

datatype resolved = RNum real | RElem element

text \<open>
  What \<^verbatim>\<open>options.patterns[options.easing]\<close> can be when it is not \<^verbatim>\<open>undefined\<close>: an
  easing curve, or a value the patterns object inherits from \<^verbatim>\<open>Object.prototype\<close>
  under that name. The names are those of the language standard, its annex for browsers
  included; every one of the values is truthy.
\<close>

datatype ease_value = Curve curve | Inherited string

definition Object_prototype :: "string list" where
  "Object_prototype =
     [''constructor'', ''hasOwnProperty'', ''isPrototypeOf'', ''propertyIsEnumerable'',
      ''toLocaleString'', ''toString'', ''valueOf'', ''__proto__'', ''__defineGetter__'',
      ''__defineSetter__'', ''__lookupGetter__'', ''__lookupSetter__'']"

text \<open>The variables the \<^verbatim>\<open>step\<close> closure captures, when the easing is a curve.\<close>

record run =
  run_container :: element
  run_horizontal :: bool
  run_duration :: real
  run_ease :: curve
  startLocation :: real
  targetLocation :: real
  startTime :: real

text \<open>
  The promise returned: resolved at once, or pending on the frames of a run. With an
  inherited value in the place of the curve the frame is requested all the same; what
  the frames of such a call do with that value is left outside the model, and
  \<open>Pending_inherited\<close> only records the name.
\<close>

datatype promise = Resolved real | Pending run | Pending_inherited string

text \<open>\<^verbatim>\<open>(typeof _target === 'number' ? _target : getTarget(_target)) ?? 0\<close>\<close>

definition scroll_target :: "document \<Rightarrow> target \<Rightarrow> resolved" where
  "scroll_target doc target_arg =
     (case target_arg of
        Num n \<Rightarrow> RNum n
      | Desc d \<Rightarrow> (case getTarget doc d of Some e \<Rightarrow> RElem e | None \<Rightarrow> RNum 0))"

text \<open>
  The container: the target's parent element under the sentinel \<^verbatim>\<open>'parent'\<close> (which
  may be \<^verbatim>\<open>null\<close>), the resolved container option or the document's scroller otherwise.
\<close>

definition scroll_container :: "document \<Rightarrow> GoToOptions \<Rightarrow> resolved \<Rightarrow> element option" where
  "scroll_container doc opts tgt =
     (case tgt of
        RElem e \<Rightarrow>
          (if container opts = Selector ''parent'' then parentElement e
           else Some (getContainer doc (container opts)))
      | RNum n \<Rightarrow> Some (getContainer doc (container opts)))"

definition easing_message :: "string \<Rightarrow> string" where
  "easing_message name = ''Easing function '' @ [CHR 0x22] @ name @ [CHR 0x22] @ '' not found.''"

text \<open>
  The value of \<^verbatim>\<open>ease\<close>, or the error thrown when it is \<^verbatim>\<open>undefined\<close>. \<open>patterns\<close>
  holds the entries of the patterns object itself; a name it lacks is looked up on
  \<^verbatim>\<open>Object.prototype\<close>.
\<close>

definition scroll_ease :: "GoToOptions \<Rightarrow> error + ease_value" where
  "scroll_ease opts =
     (case easing opts of
        EasingFn f \<Rightarrow> Inr (Curve f)
      | EasingName name \<Rightarrow>
          (case patterns opts name of
             Some f \<Rightarrow> Inr (Curve f)
           | None \<Rightarrow>
               if name \<in> set Object_prototype then Inr (Inherited name)
               else Inl (EasingNotFound (easing_message name))))"


text \<open>The target location before clamping: offsets, layout adjustment, additive offset.\<close>

definition raw_targetLocation ::
  "document \<Rightarrow> GoToOptions \<Rightarrow> resolved \<Rightarrow> element \<Rightarrow> bool \<Rightarrow> bool \<Rightarrow> real" where
  "raw_targetLocation doc opts tgt cont horizontal isRtl =
     dadd
       (case tgt of
          RNum n \<Rightarrow> getOffset doc (Num n) horizontal isRtl
        | RElem e \<Rightarrow>
            (let t = dsub (getOffset doc (Desc (Handle (Elem e))) horizontal isRtl)
                          (getOffset doc (Desc (Handle (Elem cont))) horizontal isRtl)
             in if layout opts then
                  (case layoutTop e of Some n \<Rightarrow> dsub t (of_int n) | None \<Rightarrow> t)
                else t))
       (offset opts)"

definition scroll_targetLocation ::
  "document \<Rightarrow> GoToOptions \<Rightarrow> resolved \<Rightarrow> element \<Rightarrow> bool \<Rightarrow> bool \<Rightarrow> world \<Rightarrow> real \<times> world" where
  "scroll_targetLocation doc opts tgt cont horizontal isRtl w =
     clampTarget cont (raw_targetLocation doc opts tgt cont horizontal isRtl) isRtl horizontal w"

text \<open>
  \<^verbatim>\<open>scrollTo\<close>. \<open>s\<close> is the reactive state and \<open>now\<close> the value of
  \<^verbatim>\<open>performance.now()\<close> at the call. The function is private to the module and both of
  its callers pass the instance, so the instance is not optional here.
\<close>

definition scrollTo ::
  "document \<Rightarrow> 's \<Rightarrow> real \<Rightarrow> target \<Rightarrow> PartialOptions \<Rightarrow> bool \<Rightarrow> 's GoToInstance \<Rightarrow> world
     \<Rightarrow> (error + promise) \<times> world" where
  "scrollTo doc s now target_arg options_arg horizontal goTo w =
     (let opts = mergeDeep (options goTo) options_arg;
          isRtl = rtl goTo s;
          tgt = scroll_target doc target_arg;
          cont_opt = scroll_container doc opts tgt
      in case scroll_ease opts of
           Inl err \<Rightarrow> (Inl err, w)
         | Inr ease \<Rightarrow>
             (case cont_opt of
                None \<Rightarrow> (Inl NullContainer, w)
              | Some cont \<Rightarrow>
                  (let (target_loc, w1) =
                         scroll_targetLocation doc opts tgt cont horizontal isRtl w;
                       start_loc = read_scroll w1 cont horizontal
                   in if target_loc = start_loc then (Inr (Resolved target_loc), w1)
                      else (Inr (case ease of
                                   Curve f \<Rightarrow>
                                     Pending
                                       \<lparr>run_container = cont, run_horizontal = horizontal,
                                        run_duration = duration opts, run_ease = f,
                                        startLocation = start_loc, targetLocation = target_loc,
                                        startTime = now\<rparr>
                                 | Inherited name \<Rightarrow> Pending_inherited name),
                            w1\<lparr>raf_calls := raf_calls w1 + 1\<rparr>))))"

subsection \<open>One animation frame\<close>

text \<open>
  \<^verbatim>\<open>Math.abs(options.duration ? Math.min(timeElapsed / options.duration, 1) : 1)\<close>
\<close>

definition frame_progress :: "real \<Rightarrow> real \<Rightarrow> real" where
  "frame_progress dur timeElapsed = \<bar>if dur \<noteq> 0 then min (ddiv timeElapsed dur) 1 else 1\<bar>"

text \<open>
  The progress as the specification words it, \<open>min(elapsed/duration, 1)\<close>, forced to 1
  when the duration is 0: the reading the source is compared with.
\<close>

definition spec_progress :: "real \<Rightarrow> real \<Rightarrow> real" where
  "spec_progress dur timeElapsed = (if dur = 0 then 1 else min (ddiv timeElapsed dur) 1)"

definition frame_location :: "run \<Rightarrow> real \<Rightarrow> real" where
  "frame_location r progress =
     of_int \<lfloor>dadd (startLocation r)
               (dmul (dsub (targetLocation r) (startLocation r)) (run_ease r progress))\<rfloor>"

definition clientSize :: "document \<Rightarrow> element \<Rightarrow> bool \<Rightarrow> real" where
  "clientSize doc cont horizontal =
     (if \<not> horizontal then
        (if ident cont = ident (body doc) then documentElement_clientHeight doc
         else clientHeight (geom cont))
      else
        (if ident cont = ident (body doc) then documentElement_clientWidth doc
         else clientWidth (geom cont)))"

definition scrollSize :: "element \<Rightarrow> bool \<Rightarrow> real" where
  "scrollSize cont horizontal =
     (if \<not> horizontal then scrollHeight (geom cont) else scrollWidth (geom cont))"

definition reachEnd :: "document \<Rightarrow> element \<Rightarrow> bool \<Rightarrow> world \<Rightarrow> bool" where
  "reachEnd doc cont horizontal w =
     (dadd (clientSize doc cont horizontal) (read_scroll w cont horizontal)
        \<ge> scrollSize cont horizontal)"

text \<open>What a frame callback leaves behind: the promise resolved, or another frame requested.\<close>

datatype signal = Resolve real | Next

definition step :: "document \<Rightarrow> run \<Rightarrow> real \<Rightarrow> world \<Rightarrow> signal \<times> world" where
  "step doc r currentTime w =
     (let timeElapsed = dsub currentTime (startTime r);
          progress = frame_progress (run_duration r) timeElapsed;
          location = frame_location r progress;
          w1 = write_scroll (run_container r) (run_horizontal r) location w
      in if progress = 1 then (Resolve (targetLocation r), w1)
         else if targetLocation r > read_scroll w1 (run_container r) (run_horizontal r)
                 \<and> reachEnd doc (run_container r) (run_horizontal r) w1
              then (Resolve (targetLocation r), w1)
              else (Next, w1\<lparr>raf_calls := raf_calls w1 + 1\<rparr>))"


subsection \<open>The public facade\<close>

definition createGoTo :: "PartialOptions \<Rightarrow> ('s \<Rightarrow> bool) \<Rightarrow> 's GoToInstance" where
  "createGoTo options_arg locale_isRtl =
     \<lparr>rtl = locale_isRtl, options = mergeDeep genDefaults options_arg\<rparr>"

text \<open>The function \<^verbatim>\<open>useGoTo\<close> returns, as the two things it closes over.\<close>

record 's go_closure =
  goTo :: "'s GoToInstance"
  facade_options :: PartialOptions

definition useGoTo ::
  "'s GoToInstance option \<Rightarrow> ('s \<Rightarrow> bool) \<Rightarrow> PartialOptions \<Rightarrow> error + 's go_closure" where
  "useGoTo injected isRtl options_arg =
     (case injected of
        None \<Rightarrow> Inl InjectionMissing
      | Some goToInstance \<Rightarrow>
          Inr \<lparr>goTo = goToInstance\<lparr>rtl := \<lambda>s. rtl goToInstance s \<or> isRtl s\<rparr>,
               facade_options = options_arg\<rparr>)"

definition go ::
  "document \<Rightarrow> 's \<Rightarrow> real \<Rightarrow> 's go_closure \<Rightarrow> target \<Rightarrow> PartialOptions \<Rightarrow> world
     \<Rightarrow> (error + promise) \<times> world" where
  "go doc s now g tgt opts w =
     scrollTo doc s now tgt (mergeDeep_partial (facade_options g) opts) False (goTo g) w"

definition go_horizontal ::
  "document \<Rightarrow> 's \<Rightarrow> real \<Rightarrow> 's go_closure \<Rightarrow> target \<Rightarrow> PartialOptions \<Rightarrow> world
     \<Rightarrow> (error + promise) \<times> world" where
  "go_horizontal doc s now g tgt opts w =
     scrollTo doc s now tgt (mergeDeep_partial (facade_options g) opts) True (goTo g) w"

subsection \<open>Concrete scenes\<close>

definition box :: "real \<Rightarrow> real \<Rightarrow> geometry" where
  "box x y =
     \<lparr>offsetLeft = x, offsetTop = y, offsetWidth = 0, offsetHeight = 0,
      clientWidth = 0, clientHeight = 0, scrollWidth = 0, scrollHeight = 0\<rparr>"

text \<open>A scroller 400 wide and 300 high over content of 1000 by 1000.\<close>

definition rtl_box :: element where
  "rtl_box =
     Element 1
       \<lparr>offsetLeft = 0, offsetTop = 0, offsetWidth = 400, offsetHeight = 300,
        clientWidth = 400, clientHeight = 300, scrollWidth = 1000, scrollHeight = 1000\<rparr>
       None None None"

text \<open>A container without size and without content.\<close>

definition zero_box :: element where
  "zero_box = Element 2 (box 0 0) None None None"

text \<open>Three nested positioned elements with vertical offsets 10, 20 and 30.\<close>

definition level_c :: element where
  "level_c = Element 5 (box 3 30) None None None"

definition level_b :: element where
  "level_b = Element 4 (box 2 20) (Some level_c) (Some level_c) None"

definition level_a :: element where
  "level_a = Element 3 (box 1 10) (Some level_b) (Some level_b) None"

text \<open>
  A page scrolled by its body: a viewport of 1200 by 800 over a document 1000 high,
  scrolled down by 200, which is as far as it goes.
\<close>

definition page_body :: element where
  "page_body =
     Element 0
       \<lparr>offsetLeft = 0, offsetTop = 0, offsetWidth = 1200, offsetHeight = 100,
        clientWidth = 1200, clientHeight = 100, scrollWidth = 1200, scrollHeight = 1000\<rparr>
       None None None"

definition page :: document where
  "page =
     \<lparr>querySelector = (\<lambda>sel. if sel = ''#box'' then Some rtl_box else None),
      valid_selector = (\<lambda>sel. sel \<in> set [''#box'', ''#missing'', ''parent'']),
      scrollingElement = None,
      body = page_body,
      documentElement_clientWidth = 1200,
      documentElement_clientHeight = 800\<rparr>"

definition page_world :: world where
  "page_world =
     \<lparr>scrolls = (\<lambda>i. \<lparr>scrollLeft = 0, scrollTop = 0\<rparr>)(0 := \<lparr>scrollLeft = 0, scrollTop = 200\<rparr>),
      console = [],
      raf_calls = 0\<rparr>"

text \<open>
  The application's instance and the function \<^verbatim>\<open>useGoTo\<close> hands out. The reactive
  state is a pair: the locale flag the instance captured, and the ambient locale flag.
\<close>

definition app_instance :: "(bool \<times> bool) GoToInstance" where
  "app_instance = createGoTo no_options fst"

definition page_go :: "(bool \<times> bool) go_closure" where
  "page_go =
     \<lparr>goTo = app_instance\<lparr>rtl := \<lambda>s. rtl app_instance s \<or> snd s\<rparr>,
      facade_options = no_options\<rparr>"

text \<open>An easing curve that first backs away from its target.\<close>

definition back_curve :: curve where
  "back_curve t = dmul (dmul t t) (dsub (dmul 3 t) 2)"

definition linear_opts :: PartialOptions where
  "linear_opts = no_options\<lparr>p_easing := Some (EasingName ''linear'')\<rparr>"

definition back_opts :: PartialOptions where
  "back_opts = no_options\<lparr>p_easing := Some (EasingFn back_curve)\<rparr>"

definition instant_opts :: PartialOptions where
  "instant_opts = no_options\<lparr>p_duration := Some 0\<rparr>"

definition unknown_opts :: PartialOptions where
  "unknown_opts = no_options\<lparr>p_easing := Some (EasingName ''doesNotExist'')\<rparr>"

definition constructor_opts :: PartialOptions where
  "constructor_opts = no_options\<lparr>p_easing := Some (EasingName ''constructor'')\<rparr>"

definition box_opts :: PartialOptions where
  "box_opts = no_options\<lparr>p_container := Some (Selector ''#box'')\<rparr>"

text \<open>A run on the page's body, started at time 1000 from the scroll offset 200.\<close>

definition page_run :: "curve \<Rightarrow> real \<Rightarrow> run" where
  "page_run ease dest =
     \<lparr>run_container = page_body, run_horizontal = False, run_duration = 300, run_ease = ease,
      startLocation = 200, targetLocation = dest, startTime = 1000\<rparr>"

section \<open>Properties\<close>

subsection \<open>Offsets\<close>

lemma offset_loop_chain:
  "offset_loop horizontal (Some el) acc =
     acc + sum_list (map (axis_offset horizontal) (offset_chain el))"
proof (induction el arbitrary: acc rule: offset_chain.induct)
  case (1 i g op pe lt)
  show ?case
  proof (cases op)
    case None
    then show ?thesis by (simp add: axis_offset_def)
  next
    case (Some p)
    with "1.IH" [of p] show ?thesis by (simp add: axis_offset_def)
  qed
qed

text \<open>
  C8. On a numeric target \<open>getOffset\<close> returns the number unchanged, except that it
  negates it when the axis is horizontal and the direction is right-to-left:
  \<open>getOffset(50, true, true)\<close> is \<open>-50\<close> and \<open>getOffset(50, true, false)\<close> is \<open>50\<close>.
\<close>

theorem getOffset_numeric:
  "getOffset doc (Num n) horizontal isRtl = (if horizontal \<and> isRtl then - n else n)
   \<and> getOffset doc (Num n) False isRtl = n
   \<and> getOffset doc (Num n) horizontal False = n
   \<and> getOffset doc (Num n) True True = - n
   \<and> getOffset doc (Num 50) True True = - 50
   \<and> getOffset doc (Num 50) True False = 50"
  by (simp add: getOffset_def)

text \<open>
  C9. On an element target \<open>getOffset\<close> returns the sum of the offsets on the requested
  axis (\<open>offsetLeft\<close> when horizontal, \<open>offsetTop\<close> when vertical) over the element and
  its successive offset parents. Three nested elements with vertical offsets 10, 20 and
  30 give 60, and a target that resolves to nothing gives 0.
\<close>

theorem getOffset_element:
  "getOffset doc (Desc (Handle (Elem el))) horizontal isRtl
     = sum_list (map (axis_offset horizontal) (offset_chain el))
   \<and> getOffset doc (Desc (Handle (Elem el))) True isRtl
     = sum_list (map (\<lambda>e. offsetLeft (geom e)) (offset_chain el))
   \<and> getOffset doc (Desc (Handle (Elem el))) False isRtl
     = sum_list (map (\<lambda>e. offsetTop (geom e)) (offset_chain el))
   \<and> getOffset doc (Desc d) horizontal isRtl
     = (case getTarget doc d of
          None \<Rightarrow> 0
        | Some e \<Rightarrow> sum_list (map (axis_offset horizontal) (offset_chain e)))
   \<and> offset_chain level_a = [level_a, level_b, level_c]
   \<and> getOffset doc (Desc (Handle (Elem level_a))) False isRtl = 60
   \<and> getOffset doc (Desc (Handle Undefined)) horizontal isRtl = 0
   \<and> getOffset doc (Desc (Handle (Component None))) horizontal isRtl = 0
   \<and> getOffset page (Desc (Selector ''#missing'')) horizontal isRtl = 0"
proof -
  have elem: "getOffset doc (Desc (Handle (Elem e))) h r
                = sum_list (map (axis_offset h) (offset_chain e))" for e h r
    by (simp add: getOffset_def getTarget_def refElement_def offset_loop_chain
          del: offset_loop.simps)
  have left: "getOffset doc (Desc (Handle (Elem el))) True isRtl
                = sum_list (map (\<lambda>e. offsetLeft (geom e)) (offset_chain el))"
    unfolding elem by (simp add: axis_offset_def [abs_def])
  have top: "getOffset doc (Desc (Handle (Elem el))) False isRtl
               = sum_list (map (\<lambda>e. offsetTop (geom e)) (offset_chain el))"
    unfolding elem by (simp add: axis_offset_def [abs_def])
  have any: "getOffset doc (Desc d) horizontal isRtl
     = (case getTarget doc d of
          None \<Rightarrow> 0
        | Some e \<Rightarrow> sum_list (map (axis_offset horizontal) (offset_chain e)))"
    by (cases "getTarget doc d")
       (simp_all add: getOffset_def offset_loop_chain del: offset_loop.simps(2))
  have chain: "offset_chain level_a = [level_a, level_b, level_c]"
    by (simp add: level_a_def level_b_def level_c_def)
  have sixty: "getOffset doc (Desc (Handle (Elem level_a))) False isRtl = 60"
    unfolding elem chain
    by (simp add: axis_offset_def level_a_def level_b_def level_c_def box_def)
  have undef: "getOffset doc (Desc (Handle Undefined)) horizontal isRtl = 0"
    by (simp add: getOffset_def getTarget_def refElement_def)
  have unmounted: "getOffset doc (Desc (Handle (Component None))) horizontal isRtl = 0"
    by (simp add: getOffset_def getTarget_def refElement_def)
  have missing: "getOffset page (Desc (Selector ''#missing'')) horizontal isRtl = 0"
    by (simp add: getOffset_def getTarget_def page_def)
  from elem [of el horizontal isRtl] left top any chain sixty undef unmounted missing
  show ?thesis by blast
qed

subsection \<open>Clamping\<close>

lemma clamp_idem:
  fixes v lo hi :: real
  shows "max (min (max (min v hi) lo) hi) lo = max (min v hi) lo"
  by (simp add: max_def min_def)

text \<open>
  C2. \<open>clampTarget\<close> returns \<open>max(min(value, max), min)\<close> with the bounds
  \<open>0\<close> and \<open>scrollWidth - offsetWidth\<close> on the horizontal left-to-right axis,
  \<open>-(scrollWidth - offsetWidth)\<close> and \<open>0\<close> on the horizontal right-to-left axis, and
  \<open>0\<close> and \<open>scrollHeight - offsetHeight\<close> on the vertical axis. For a right-to-left
  container with \<open>scrollWidth = 1000\<close> and \<open>offsetWidth = 400\<close> the range is \<open>[-600, 0]\<close>
  and 500 is clamped to 0. The function is total: on a container without size or
  scrollable range it returns the single value of the range. It is idempotent.
\<close>

theorem clampTarget_value:
  "fst (clampTarget c v False True w)
     = max (min v (scrollWidth (geom c) - offsetWidth (geom c))) 0
   \<and> fst (clampTarget c v True True w)
     = max (min v 0) (- (scrollWidth (geom c) - offsetWidth (geom c)))
   \<and> fst (clampTarget c v isRtl False w)
     = max (min v (scrollHeight (geom c) - offsetHeight (geom c))) 0
   \<and> clamp_bounds rtl_box True True = (- 600, 0)
   \<and> - 600 \<le> fst (clampTarget rtl_box v True True w)
   \<and> fst (clampTarget rtl_box v True True w) \<le> 0
   \<and> fst (clampTarget rtl_box 500 True True w) = 0
   \<and> fst (clampTarget zero_box v isRtl horizontal w) = 0
   \<and> fst (clampTarget c (fst (clampTarget c v isRtl horizontal w)) isRtl horizontal w')
     = fst (clampTarget c v isRtl horizontal w)"
proof -
  have val: "fst (clampTarget c v r h w)
               = max (min v (snd (clamp_bounds c r h))) (fst (clamp_bounds c r h))"
    for c v r h w
    by (simp add: clampTarget_def split_beta)
  have idem: "fst (clampTarget c (fst (clampTarget c v isRtl horizontal w)) isRtl horizontal w')
     = fst (clampTarget c v isRtl horizontal w)"
    unfolding val by (rule clamp_idem)
  have bounds: "clamp_bounds rtl_box True True = (- 600, 0)"
    by (simp add: clamp_bounds_def rtl_box_def)
  have zero: "fst (clampTarget zero_box v isRtl horizontal w) = 0"
    unfolding val by (simp add: clamp_bounds_def zero_box_def box_def)
  show ?thesis
    using idem zero bounds
    by (simp add: val clamp_bounds_def rtl_box_def)
qed

subsection \<open>Unfolding the scenes, the arithmetic and the animator\<close>

lemmas double_eval = double_def exponent_def rne_def bits.simps Let_def
  dadd_def dsub_def dmul_def ddiv_def dpow_def power_divide

text \<open>
  Some doubles: a tenth, three tenths and the sum of a tenth and two tenths, which is not
  the double of three tenths; a tie, rounded to the even neighbour; a whole number.
\<close>

lemma double_examples:
  "double (1 / 10) = 3602879701896397 / 2 ^ 55"
  "double (3 / 10) = 5404319552844595 / 2 ^ 54"
  "dadd (1 / 10) (2 / 10) = 5404319552844596 / 2 ^ 54"
  "double (2 ^ 53 + 1) = 2 ^ 53"
  "double (2 ^ 53 + 3) = 2 ^ 53 + 4"
  "double 500 = 500"
  "ddiv 171 300 = 5134103575202365 / 2 ^ 53"
  by (simp_all add: double_eval)

lemmas scene_defs = page_def page_body_def page_world_def app_instance_def page_go_def
  linear_opts_def back_opts_def instant_opts_def unknown_opts_def constructor_opts_def
  box_opts_def no_options_def createGoTo_def genDefaults_def

lemmas scroll_defs = go_def go_horizontal_def scrollTo_def mergeDeep_def mergeDeep_partial_def
  scroll_target_def scroll_container_def scroll_ease_def scroll_targetLocation_def
  raw_targetLocation_def getOffset_def getContainer_def getTarget_def refElement_def
  clampTarget_def clamp_bounds_def read_scroll_def Object_prototype_def

lemmas frame_defs = step_def frame_progress_def frame_location_def write_scroll_def
  read_scroll_def reachEnd_def clientSize_def scrollSize_def Let_def

subsection \<open>The ways a call of the animator ends\<close>



lemma scrollTo_computed:
  assumes "scroll_ease (mergeDeep (options g) ov) = Inr ease"
    and "scroll_container doc (mergeDeep (options g) ov) (scroll_target doc tgt) = Some cont"
  shows "scrollTo doc s now tgt ov horizontal g w =
     (let res = scroll_targetLocation doc (mergeDeep (options g) ov) (scroll_target doc tgt)
                  cont horizontal (rtl g s) w
      in if fst res = read_scroll w cont horizontal then (Inr (Resolved (fst res)), snd res)
         else (Inr (case ease of
                      Curve f \<Rightarrow>
                        Pending
                          \<lparr>run_container = cont, run_horizontal = horizontal,
                           run_duration = duration (mergeDeep (options g) ov), run_ease = f,
                           startLocation = read_scroll w cont horizontal,
                           targetLocation = fst res, startTime = now\<rparr>
                    | Inherited name \<Rightarrow> Pending_inherited name),
               (snd res)\<lparr>raf_calls := raf_calls (snd res) + 1\<rparr>))"
  using assms
  by (cases ease)
     (simp_all add: scrollTo_def Let_def split_beta scroll_targetLocation_def clampTarget_def
        read_scroll_def)

lemma targetLocation_world:
  "scrolls (snd (scroll_targetLocation doc opts tgt cont horizontal isRtl w)) = scrolls w"
  "raf_calls (snd (scroll_targetLocation doc opts tgt cont horizontal isRtl w)) = raf_calls w"
  "console (snd (scroll_targetLocation doc opts tgt cont horizontal isRtl w))
     = console w @ [\<lparr>log_min = fst (clamp_bounds cont isRtl horizontal),
                      log_max = snd (clamp_bounds cont isRtl horizontal),
                      log_value = raw_targetLocation doc opts tgt cont horizontal isRtl\<rparr>]"
  by (simp_all add: scroll_targetLocation_def clampTarget_def split_beta)

text \<open>The animator reads the right-to-left flag once, from the state at the call.\<close>

lemma scrollTo_rtl_at_call:
  "scrollTo doc s now tgt ov horizontal g w
     = scrollTo doc s' now tgt ov horizontal \<lparr>rtl = \<lambda>_. rtl g s, options = options g\<rparr> w"
  by (simp add: scrollTo_def)

subsection \<open>What one frame does\<close>

lemma step_signal:
  "fst (step doc r t w) =
     (if frame_progress (run_duration r) (dsub t (startTime r)) = 1
         \<or> (frame_location r (frame_progress (run_duration r) (dsub t (startTime r)))
               < targetLocation r
            \<and> scrollSize (run_container r) (run_horizontal r)
                \<le> dadd (clientSize doc (run_container r) (run_horizontal r))
                     (frame_location r (frame_progress (run_duration r) (dsub t (startTime r)))))
      then Resolve (targetLocation r) else Next)"
  by (simp add: step_def Let_def reachEnd_def read_scroll_def write_scroll_def)

lemma step_world:
  "scrolls (snd (step doc r t w)) =
     scrolls (write_scroll (run_container r) (run_horizontal r)
        (frame_location r (frame_progress (run_duration r) (dsub t (startTime r)))) w)"
  "console (snd (step doc r t w)) = console w"
  "raf_calls (snd (step doc r t w))
     = (if fst (step doc r t w) = Next then raf_calls w + 1 else raf_calls w)"
  by (simp_all add: step_def Let_def write_scroll_def)

lemma read_after_write: "read_scroll (write_scroll c h v w) c h = v"
  by (simp add: read_scroll_def write_scroll_def)

lemma read_scroll_cong: "scrolls w = scrolls w' \<Longrightarrow> read_scroll w c h = read_scroll w' c h"
  by (simp add: read_scroll_def)

lemma step_written:
  "read_scroll (snd (step doc r t w)) (run_container r) (run_horizontal r)
     = frame_location r (frame_progress (run_duration r) (dsub t (startTime r)))"
  using read_scroll_cong [OF step_world(1)] by (simp add: read_after_write)

subsection \<open>Calls on the page\<close>

lemma go_linear:
  "go page s 1000 page_go (Num 500) linear_opts page_world
     = (Inr (Pending (page_run linear_ease 500)),
        page_world\<lparr>console := [\<lparr>log_min = 0, log_max = 900, log_value = 500\<rparr>],
                   raf_calls := 1\<rparr>)"
  by (simp add: scene_defs scroll_defs page_run_def double_eval)



lemma constructor_merged:
  "easing (mergeDeep (options app_instance) constructor_opts) = EasingName ''constructor''"
  "patterns (mergeDeep (options app_instance) constructor_opts) ''constructor'' = None"
  by (simp_all add: scene_defs mergeDeep_def)


lemma default_merged:
  "scroll_ease (mergeDeep (options app_instance) no_options) = Inr (Curve easeInOutCubic)"
  by (simp add: scene_defs mergeDeep_def scroll_ease_def)


lemma page_container:
  "scroll_container page (mergeDeep (options app_instance) no_options)
     (scroll_target page (Num n)) = Some page_body"
  "scroll_container page (mergeDeep (options app_instance) instant_opts)
     (scroll_target page (Num n)) = Some page_body"
  "scroll_container page (mergeDeep (options app_instance) back_opts)
     (scroll_target page (Num n)) = Some page_body"
  by (simp_all add: scene_defs mergeDeep_def scroll_container_def scroll_target_def
        getContainer_def getTarget_def refElement_def)

lemma page_location:
  "fst (scroll_targetLocation page (mergeDeep (options app_instance) no_options)
         (scroll_target page (Num 200)) page_body False isRtl page_world) = 200"
  "fst (scroll_targetLocation page (mergeDeep (options app_instance) instant_opts)
         (scroll_target page (Num 500)) page_body False isRtl page_world) = 500"
  "read_scroll page_world page_body False = 200"
  by (simp_all add: scene_defs scroll_defs double_eval)


text \<open>
  Two frames on which the rounding of double arithmetic decides the offset written.
  From 0 to 100 on the linear curve, 171 ms into 300 ms, the product falls just short of
  57. On the page, a tenth of a millisecond before the end, \<open>easeOutQuint\<close> already
  returns 1: the frame writes the target itself, and with the target no longer ahead of
  the offset it requests another frame.
\<close>

lemma frame_rounds_down:
  "read_scroll
     (snd (step page
        \<lparr>run_container = page_body, run_horizontal = False, run_duration = 300,
         run_ease = linear_ease, startLocation = 0, targetLocation = 100, startTime = 0\<rparr>
        171 page_world)) page_body False = 56"
  using step_written
          [of page "\<lparr>run_container = page_body, run_horizontal = False, run_duration = 300,
                    run_ease = linear_ease, startLocation = 0, targetLocation = 100,
                    startTime = 0\<rparr>" 171 page_world]
  by (simp add: frame_progress_def frame_location_def linear_ease_def double_eval)

lemma frame_eased_to_one:
  "easeOutQuint (frame_progress 300 (dsub (12999 / 10) 1000)) = 1
   \<and> frame_progress 300 (dsub (12999 / 10) 1000) \<noteq> 1
   \<and> read_scroll (snd (step page (page_run easeOutQuint 500) (12999 / 10) page_world))
        page_body False = 500
   \<and> fst (step page (page_run easeOutQuint 500) (12999 / 10) page_world) = Next"
proof -
  have p: "frame_progress 300 (dsub (12999 / 10) 1000) = 4502098427494707 / 4503599627370496"
    by (simp add: frame_progress_def double_eval)
  have e: "easeOutQuint (4502098427494707 / 4503599627370496) = 1"
    by (simp add: easeOutQuint_def double_eval)
  have l: "frame_location (page_run easeOutQuint 500) (4502098427494707 / 4503599627370496)
             = 500"
    by (simp add: frame_location_def page_run_def e) (simp add: double_eval)
  have w: "read_scroll (snd (step page (page_run easeOutQuint 500) (12999 / 10) page_world))
        page_body False = 500"
    using step_written [of page "page_run easeOutQuint 500" "12999 / 10" page_world]
    by (simp add: page_run_def p) (simp add: l [unfolded page_run_def])
  have n: "fst (step page (page_run easeOutQuint 500) (12999 / 10) page_world) = Next"
    unfolding step_signal
    by (simp add: page_run_def p) (simp add: l [unfolded page_run_def])
  have e1: "easeOutQuint (frame_progress 300 (dsub (12999 / 10) 1000)) = 1"
    unfolding p by (rule e)
  have p1: "frame_progress 300 (dsub (12999 / 10) 1000) \<noteq> 1"
    unfolding p by simp
  from e1 p1 w n show ?thesis by blast
qed

lemma page_run_sel:
  "run_container (page_run ease dest) = page_body"
  "run_horizontal (page_run ease dest) = False"
  "run_duration (page_run ease dest) = 300"
  "run_ease (page_run ease dest) = ease"
  "startLocation (page_run ease dest) = 200"
  "targetLocation (page_run ease dest) = dest"
  "startTime (page_run ease dest) = 1000"
  by (simp_all add: page_run_def)


text \<open>The frames of the page that the statements below evaluate.\<close>

lemma page_progress:
  "frame_progress 300 (dsub 994 1000) = double (1 / 50)"
  "spec_progress 300 (dsub 994 1000) = - double (1 / 50)"
  "frame_progress 300 (dsub 1150 1000) = 1 / 2"
  "frame_progress 300 (dsub 1300 1000) = 1"
  "frame_progress 300 (dsub 1016 1000) = double (4 / 75)"
  by (simp_all add: frame_progress_def spec_progress_def double_eval)

lemma page_frames:
  "frame_location (page_run linear_ease 500) (double (1 / 50)) = 206"
  "frame_location (page_run linear_ease 500) (- double (1 / 50)) = 194"
  "frame_location (page_run linear_ease 500) 1 = 500"
  "frame_location (page_run linear_ease 100) (1 / 2) = 150"
  "frame_location (page_run back_curve 500) (1 / 2) = 162"
  "frame_location (page_run easeInOutCubic 500) (double (4 / 75)) = 200"
  by (simp_all add: frame_location_def page_run_sel linear_ease_def back_curve_def
        easeInOutCubic_def double_eval)

subsection \<open>The frame callback\<close>

text \<open>
  C1, as stated: on every frame the progress is \<open>min(elapsed/duration, 1)\<close>. The source
  takes the absolute value of that minimum, so the two differ whenever the frame's
  timestamp lies before the time of the call. On the page, with the linear curve, a frame
  stamped 6 ms before the call writes 206 where the stated formula gives 194.
\<close>

theorem progress_is_min_counterexample:
  "fst (go page (False, False) 1000 page_go (Num 500) linear_opts page_world)
     = Inr (Pending (page_run linear_ease 500))
   \<and> frame_progress (run_duration (page_run linear_ease 500))
        (dsub 994 (startTime (page_run linear_ease 500))) = double (1 / 50)
   \<and> spec_progress (run_duration (page_run linear_ease 500))
        (dsub 994 (startTime (page_run linear_ease 500))) = - double (1 / 50)
   \<and> read_scroll (snd (step page (page_run linear_ease 500) 994 page_world)) page_body False
       = 206
   \<and> frame_location (page_run linear_ease 500)
        (spec_progress (run_duration (page_run linear_ease 500))
           (dsub 994 (startTime (page_run linear_ease 500)))) = 194
   \<and> read_scroll (snd (step page (page_run linear_ease 500) 994 page_world)) page_body False
       \<noteq> frame_location (page_run linear_ease 500)
            (spec_progress (run_duration (page_run linear_ease 500))
               (dsub 994 (startTime (page_run linear_ease 500))))"
proof -
  have written:
    "read_scroll (snd (step page (page_run linear_ease 500) 994 page_world)) page_body False
       = 206"
    using step_written [of page "page_run linear_ease 500" 994 page_world]
    by (simp only: page_run_sel page_progress page_frames)
  show ?thesis
    unfolding go_linear
    by (simp only: written page_run_sel page_progress page_frames) simp
qed

text \<open>
  C1, amended. On every frame the animator computes the progress
  \<open>|min(elapsed/duration, 1)|\<close>, forced to 1 when the duration is 0; this is
  \<open>min(elapsed/duration, 1)\<close> whenever \<open>elapsed/duration\<close> is not negative. It applies
  the easing curve to that progress and sets the container's scroll offset on the
  requested axis to \<open>floor(startLocation + (targetLocation - startLocation) * eased)\<close>,
  each operation being that of double arithmetic. When the progress is 1 it resolves the
  promise with \<open>targetLocation\<close> and requests no further frame.
\<close>

theorem step_writes_eased_location:
  "read_scroll (snd (step doc r t w)) (run_container r) (run_horizontal r)
     = of_int \<lfloor>dadd (startLocation r)
                 (dmul (dsub (targetLocation r) (startLocation r))
                    (run_ease r (frame_progress (run_duration r) (dsub t (startTime r)))))\<rfloor>
   \<and> frame_progress dur e = (if dur = 0 then 1 else \<bar>min (ddiv e dur) 1\<bar>)
   \<and> (0 \<le> ddiv e dur \<longrightarrow> frame_progress dur e = spec_progress dur e)
   \<and> (frame_progress (run_duration r) (dsub t (startTime r)) = 1 \<longrightarrow>
        fst (step doc r t w) = Resolve (targetLocation r)
        \<and> raf_calls (snd (step doc r t w)) = raf_calls w)"
proof -
  have prog: "frame_progress dur e = (if dur = 0 then 1 else \<bar>min (ddiv e dur) 1\<bar>)"
    by (simp add: frame_progress_def)
  have nonneg: "0 \<le> ddiv e dur \<longrightarrow> frame_progress dur e = spec_progress dur e"
    by (simp add: frame_progress_def spec_progress_def min_def)
  have fin: "frame_progress (run_duration r) (dsub t (startTime r)) = 1 \<longrightarrow>
        fst (step doc r t w) = Resolve (targetLocation r)
        \<and> raf_calls (snd (step doc r t w)) = raf_calls w"
    by (simp add: step_signal step_world)
  from step_written [of doc r t w] prog nonneg fin show ?thesis
    by (simp only: frame_location_def)
qed

theorem step_writes_eased_location_witness:
  "read_scroll (snd (step page (page_run linear_ease 500) 1300 page_world)) page_body False
     = 500
   \<and> ddiv 150 300 = 1 / 2
   \<and> frame_progress 300 150 = 1 / 2
   \<and> spec_progress 300 150 = 1 / 2
   \<and> frame_progress 300 (dsub 1300 1000) = 1
   \<and> fst (step page (page_run linear_ease 500) 1300 page_world) = Resolve 500
   \<and> raf_calls (snd (step page (page_run linear_ease 500) 1300 page_world)) = 0"
proof -
  have half: "ddiv 150 300 = 1 / 2" "frame_progress 300 150 = 1 / 2"
    "spec_progress 300 150 = 1 / 2"
    by (simp_all add: frame_progress_def spec_progress_def double_eval)
  have one: "linear_ease 1 = 1"
    by (simp add: linear_ease_def)
  have loc: "real_of_int \<lfloor>dadd 200 (dmul (dsub 500 200) 1)\<rfloor> = 500"
    by (simp add: double_eval)
  from step_writes_eased_location
          [where doc = page and r = "page_run linear_ease 500" and t = 1300
             and w = page_world and dur = 300 and e = 150]
  show ?thesis
    by (simp only: page_run_sel page_progress half one loc) (simp add: page_world_def)
qed






subsection \<open>The call of the animator\<close>




text \<open>
  C5. When the clamped target location equals the container's current scroll offset on
  the requested axis, the promise is resolved at once with that value; no frame is
  requested and no scroll offset is written.
\<close>

theorem scrollTo_at_target:
  assumes "scroll_ease (mergeDeep (options g) ov) = Inr ease"
    and "scroll_container doc (mergeDeep (options g) ov) (scroll_target doc tgt) = Some cont"
    and "fst (scroll_targetLocation doc (mergeDeep (options g) ov) (scroll_target doc tgt)
                cont horizontal (rtl g s) w) = read_scroll w cont horizontal"
  shows "fst (scrollTo doc s now tgt ov horizontal g w)
           = Inr (Resolved (read_scroll w cont horizontal))
         \<and> raf_calls (snd (scrollTo doc s now tgt ov horizontal g w)) = raf_calls w
         \<and> scrolls (snd (scrollTo doc s now tgt ov horizontal g w)) = scrolls w"
  using assms by (simp add: scrollTo_computed Let_def targetLocation_world)

theorem scrollTo_at_target_witness:
  "fst (scrollTo page (False, False) 1000 (Num 200) no_options False app_instance page_world)
     = Inr (Resolved 200)
   \<and> raf_calls (snd (scrollTo page (False, False) 1000 (Num 200) no_options False app_instance
                      page_world)) = 0"
  using scrollTo_at_target
          [where g = app_instance and ov = no_options and doc = page and tgt = "Num 200"
             and cont = page_body and horizontal = False and s = "(False, False)"
             and w = page_world and now = 1000, OF default_merged page_container(1)]
  by (simp add: page_location) (simp add: page_world_def)

text \<open>
  C3, evaluated. The console is empty before the call. The clamp function prints its
  bounds and its argument, so a call of the animator that reaches it leaves a line on the
  console, whether it goes on to animate (target 500) or resolves at once (target 200).
\<close>

theorem clampTarget_prints:
  "console page_world = []
   \<and> console (snd (clampTarget rtl_box 500 True True page_world))
       = [\<lparr>log_min = - 600, log_max = 0, log_value = 500\<rparr>]
   \<and> console (snd (go page (False, False) 1000 page_go (Num 500) no_options page_world))
       = [\<lparr>log_min = 0, log_max = 900, log_value = 500\<rparr>]
   \<and> console (snd (go page (False, False) 1000 page_go (Num 200) no_options page_world))
       = [\<lparr>log_min = 0, log_max = 900, log_value = 200\<rparr>]"
  by (simp add: scene_defs scroll_defs rtl_box_def double_eval)

subsection \<open>The facade\<close>

text \<open>
  C10. The function \<open>useGoTo\<close> returns carries an instance whose right-to-left flag is
  the disjunction of the injected instance's flag and the ambient locale's flag, and
  each of its two axes calls the animator with that flag as read at the time of the call.
  With an injected flag that is off and an ambient flag that is on, a horizontal call
  for 50 heads for -50, where the injected instance alone would head for 50.
\<close>

theorem useGoTo_rtl_is_or:
  "(\<exists>g. useGoTo (Some gi) isRtl base = Inr g
        \<and> rtl (goTo g) s = (rtl gi s \<or> isRtl s)
        \<and> options (goTo g) = options gi
        \<and> go doc s now g tgt ov w
            = scrollTo doc s now tgt (mergeDeep_partial base ov) False
                \<lparr>rtl = \<lambda>_. rtl gi s \<or> isRtl s, options = options gi\<rparr> w
        \<and> go_horizontal doc s now g tgt ov w
            = scrollTo doc s now tgt (mergeDeep_partial base ov) True
                \<lparr>rtl = \<lambda>_. rtl gi s \<or> isRtl s, options = options gi\<rparr> w)
   \<and> useGoTo (Some app_instance) snd no_options = Inr page_go
   \<and> rtl app_instance (False, True) = False
   \<and> fst (go_horizontal page (False, True) 1000 page_go (Num 50) box_opts page_world)
       = Inr (Pending
           \<lparr>run_container = rtl_box, run_horizontal = True, run_duration = 300,
            run_ease = easeInOutCubic, startLocation = 0, targetLocation = - 50,
            startTime = 1000\<rparr>)
   \<and> fst (scrollTo page (False, True) 1000 (Num 50) box_opts True app_instance page_world)
       = Inr (Pending
           \<lparr>run_container = rtl_box, run_horizontal = True, run_duration = 300,
            run_ease = easeInOutCubic, startLocation = 0, targetLocation = 50,
            startTime = 1000\<rparr>)"
proof -
  let ?g = "\<lparr>goTo = gi\<lparr>rtl := \<lambda>s. rtl gi s \<or> isRtl s\<rparr>, facade_options = base\<rparr>"
  have made: "useGoTo (Some gi) isRtl base = Inr ?g"
    by (simp add: useGoTo_def)
  have vertical: "go doc s now ?g tgt ov w
            = scrollTo doc s now tgt (mergeDeep_partial base ov) False
                \<lparr>rtl = \<lambda>_. rtl gi s \<or> isRtl s, options = options gi\<rparr> w"
    unfolding go_def by (subst scrollTo_rtl_at_call [where s' = s]) simp
  have horizontal: "go_horizontal doc s now ?g tgt ov w
            = scrollTo doc s now tgt (mergeDeep_partial base ov) True
                \<lparr>rtl = \<lambda>_. rtl gi s \<or> isRtl s, options = options gi\<rparr> w"
    unfolding go_horizontal_def by (subst scrollTo_rtl_at_call [where s' = s]) simp
  have general: "\<exists>g. useGoTo (Some gi) isRtl base = Inr g
        \<and> rtl (goTo g) s = (rtl gi s \<or> isRtl s)
        \<and> options (goTo g) = options gi
        \<and> go doc s now g tgt ov w
            = scrollTo doc s now tgt (mergeDeep_partial base ov) False
                \<lparr>rtl = \<lambda>_. rtl gi s \<or> isRtl s, options = options gi\<rparr> w
        \<and> go_horizontal doc s now g tgt ov w
            = scrollTo doc s now tgt (mergeDeep_partial base ov) True
                \<lparr>rtl = \<lambda>_. rtl gi s \<or> isRtl s, options = options gi\<rparr> w"
    using made vertical horizontal by (intro exI [of _ ?g]) simp
  have closure: "useGoTo (Some app_instance) snd no_options = Inr page_go"
    by (simp add: useGoTo_def page_go_def)
  have flag: "rtl app_instance (False, True) = False"
    by (simp add: app_instance_def createGoTo_def)
  have with_or:
    "fst (go_horizontal page (False, True) 1000 page_go (Num 50) box_opts page_world)
       = Inr (Pending
           \<lparr>run_container = rtl_box, run_horizontal = True, run_duration = 300,
            run_ease = easeInOutCubic, startLocation = 0, targetLocation = - 50,
            startTime = 1000\<rparr>)"
    by (simp add: scene_defs scroll_defs rtl_box_def double_eval)
  have alone:
    "fst (scrollTo page (False, True) 1000 (Num 50) box_opts True app_instance page_world)
       = Inr (Pending
           \<lparr>run_container = rtl_box, run_horizontal = True, run_duration = 300,
            run_ease = easeInOutCubic, startLocation = 0, targetLocation = 50,
            startTime = 1000\<rparr>)"
    by (simp add: scene_defs scroll_defs rtl_box_def double_eval)
  from general closure flag with_or alone show ?thesis by blast
qed

end
